theory Spec2Isabelle
  imports Main "HOL-Library.Word" "HOL-Library.Multiset"
begin

section \<open>Values exchanged with the HTTP framework and the storage client\<close>

text \<open>
  The service (\<^verbatim>\<open>src/s3data_sync.py\<close>) is a set of request handlers around one storage
  client. The handlers are modelled as functions that take the configuration, the storage
  client and the record of storage calls made so far, and return their reply together with
  the extended record of calls. The storage client is a parameter: its two operations either
  return or raise, and the answer to a write may depend on every earlier call. Reading an
  uploaded file either yields its bytes or raises.
\<close>

type_synonym byte = "8 word"

text \<open>JSON bodies: the dictionaries the handlers return.\<close>

datatype json =
    JNull
  | JStr string
  | JNum int
  | JArr "json list"
  | JObj "(string \<times> json) list"

text \<open>\<^verbatim>\<open>d.get(k, default)\<close> on a dictionary.\<close>

type_synonym py_dict = "(string \<times> string) list"

definition dict_get :: "(string \<times> 'v) list \<Rightarrow> string \<Rightarrow> 'v \<Rightarrow> 'v" where
  "dict_get d k dflt = (case map_of d k of None \<Rightarrow> dflt | Some v \<Rightarrow> v)"

text \<open>Decimal rendering of a natural number inside an f-string.\<close>

definition digit :: "nat \<Rightarrow> char" where
  "digit d = ''0123456789'' ! d"

function str_nat :: "nat \<Rightarrow> string" where
  "str_nat n = (if n < 10 then [digit n] else str_nat (n div 10) @ [digit (n mod 10)])"
  by pat_completeness auto
termination
  by (relation "measure (\<lambda>n. n)") auto

declare str_nat.simps [simp del]

text \<open>
  Exceptions of class \<^verbatim>\<open>Exception\<close> that a call may raise. A \<^verbatim>\<open>ClientError\<close> of the
  storage library carries its \<^verbatim>\<open>response\<close> dictionary (a dictionary of dictionaries of
  strings, of which the entry \<^verbatim>\<open>Error\<close> is read), the name of the operation, and the
  number of retries when the response metadata say that the maximum was reached. Every
  other exception carries its text.
\<close>

datatype py_exn =
    ClientError "(string \<times> py_dict) list" string "nat option"
  | OtherException string

text \<open>
  \<^verbatim>\<open>str(e)\<close>. The library builds the text of a \<^verbatim>\<open>ClientError\<close> when the exception is
  made, from the template
  \<^verbatim>\<open>An error occurred ({error_code}) when calling the {operation_name} operation{retry_info}: {error_message}\<close>,
  with \<^verbatim>\<open>Unknown\<close> for a code or message that the response lacks.
\<close>

fun str_exn :: "py_exn \<Rightarrow> string" where
  "str_exn (ClientError r operation_name retries) =
     ''An error occurred ('' @ dict_get (dict_get r ''Error'' []) ''Code'' ''Unknown''
       @ '') when calling the '' @ operation_name @ '' operation''
       @ (case retries of
            None \<Rightarrow> []
          | Some n \<Rightarrow> '' (reached max retries: '' @ str_nat n @ '')'')
       @ '': '' @ dict_get (dict_get r ''Error'' []) ''Message'' ''Unknown''"
| "str_exn (OtherException s) = s"

datatype outcome = Returns | Raises py_exn

text \<open>The keyword arguments of one \<^verbatim>\<open>put_object\<close> call; an argument not passed is \<open>None\<close>.\<close>

record put_request =
  Bucket :: string
  Key :: "string option"
  Body :: "byte list"
  ContentType :: "string option"
  ACL :: "string option"

type_synonym storage_call = "put_request \<times> outcome"

record s3_client =
  head_bucket :: "string \<Rightarrow> outcome"
  put_object :: "storage_call list \<Rightarrow> put_request \<Rightarrow> outcome"

text \<open>The module-level configuration, read once from the environment.\<close>

record config =
  S3_BUCKET_NAME :: string
  AWS_REGION :: string

text \<open>An uploaded file as the framework hands it over: name, content type, and what
  \<^verbatim>\<open>await file.read()\<close> does, which is to raise or to return the bytes.\<close>

record upload =
  filename :: "string option"
  content_type :: "string option"
  read :: "py_exn + byte list"

datatype fault = HTTPException nat string | Unhandled py_exn | InvalidRequest

datatype http_response = JSONResponse nat json

type_synonym reply = "fault + http_response"

section \<open>Python primitives used by the handlers\<close>

text \<open>\<^verbatim>\<open>s.rstrip(chars)\<close>: drop every trailing character that occurs in \<open>chars\<close>.\<close>

definition rstrip :: "string \<Rightarrow> string \<Rightarrow> string" where
  "rstrip s chars = rev (dropWhile (\<lambda>c. c \<in> set chars) (rev s))"

text \<open>Interpolation of a value that is a string or \<^verbatim>\<open>None\<close> into an f-string.\<close>

definition py_format :: "string option \<Rightarrow> string" where
  "py_format v = (case v of None \<Rightarrow> ''None'' | Some s \<Rightarrow> s)"

text \<open>A string or \<^verbatim>\<open>None\<close> as a JSON value.\<close>

definition json_str :: "string option \<Rightarrow> json" where
  "json_str v = (case v of None \<Rightarrow> JNull | Some s \<Rightarrow> JStr s)"

text \<open>The status the framework sends for a reply: a raised \<^verbatim>\<open>HTTPException\<close> carries its
  own, any other escaping exception becomes a server fault, and a request that fails
  validation is answered with 422.\<close>

fun http_status :: "reply \<Rightarrow> nat" where
  "http_status (Inr (JSONResponse st body)) = st"
| "http_status (Inl (HTTPException st detail)) = st"
| "http_status (Inl (Unhandled e)) = 500"
| "http_status (Inl InvalidRequest) = 422"

fun body_of :: "reply \<Rightarrow> json" where
  "body_of (Inr (JSONResponse st body)) = body"
| "body_of (Inl f) = JNull"

text \<open>Lookup of a field of a JSON object.\<close>

fun field :: "string \<Rightarrow> json \<Rightarrow> json option" where
  "field k (JObj kvs) = map_of kvs k"
| "field k j = None"

section \<open>The handlers\<close>

text \<open>\<^verbatim>\<open>GET /health\<close>: a returned dictionary is sent with status 200; only a
  \<^verbatim>\<open>ClientError\<close> is caught.\<close>

definition health_check :: "config \<Rightarrow> s3_client \<Rightarrow> reply" where
  "health_check cfg s3 =
     (case head_bucket s3 (S3_BUCKET_NAME cfg) of
        Returns \<Rightarrow>
          Inr (JSONResponse 200 (JObj
            [(''status'', JStr ''healthy''),
             (''bucket'', JStr (S3_BUCKET_NAME cfg)),
             (''connection'', JStr ''success'')]))
      | Raises (ClientError r operation_name retries) \<Rightarrow>
          Inr (JSONResponse 200 (JObj
            [(''status'', JStr ''unhealthy''),
             (''bucket'', JStr (S3_BUCKET_NAME cfg)),
             (''error'', JStr (str_exn (ClientError r operation_name retries)))]))
      | Raises (OtherException s) \<Rightarrow> Inl (Unhandled (OtherException s)))"

text \<open>The public address of a stored object.\<close>

definition file_url :: "config \<Rightarrow> string option \<Rightarrow> string" where
  "file_url cfg s3_key =
     ''https://'' @ S3_BUCKET_NAME cfg @ ''.s3.'' @ AWS_REGION cfg @ ''.amazonaws.com/''
       @ py_format s3_key"

text \<open>The two \<^verbatim>\<open>except\<close> clauses of \<^verbatim>\<open>upload_file\<close>. They guard the whole body of the
  handler, the read of the file included.\<close>

definition upload_failed :: "py_exn \<Rightarrow> fault" where
  "upload_failed e =
     (case e of
        ClientError r operation_name retries \<Rightarrow>
          (let error_code = dict_get (dict_get r ''Error'' []) ''Code'' ''Unknown'';
               error_message = dict_get (dict_get r ''Error'' []) ''Message''
                                 (str_exn (ClientError r operation_name retries))
           in HTTPException 500 (''S3 upload failed: '' @ error_code @ '' - '' @ error_message))
      | OtherException s \<Rightarrow>
          HTTPException 500 (''Upload failed: '' @ str_exn (OtherException s)))"

text \<open>\<^verbatim>\<open>POST /upload\<close>. The file is read first; a read that raises ends the request
  without a storage call. The key is built in place, as in the source: a folder that is
  neither \<^verbatim>\<open>None\<close> nor empty is stripped of trailing slashes and given one slash, and the
  file name is interpolated after it.\<close>

definition upload_file ::
  "config \<Rightarrow> s3_client \<Rightarrow> storage_call list \<Rightarrow> upload \<Rightarrow> string option
     \<Rightarrow> reply \<times> storage_call list" where
  "upload_file cfg s3 calls file folder =
     (case read file of
        Inl e \<Rightarrow> (Inl (upload_failed e), calls)
      | Inr file_contents \<Rightarrow>
         (let s3_key = (case folder of
                          None \<Rightarrow> filename file
                        | Some f \<Rightarrow>
                            if f \<noteq> []
                            then Some ((rstrip f ''/'' @ ''/'') @ py_format (filename file))
                            else filename file);
              req = \<lparr>Bucket = S3_BUCKET_NAME cfg, Key = s3_key, Body = file_contents,
                     ContentType = content_type file, ACL = Some ''public-read''\<rparr>;
              out = put_object s3 calls req;
              calls' = calls @ [(req, out)]
          in case out of
               Returns \<Rightarrow>
                 (Inr (JSONResponse 200 (JObj
                    [(''message'', JStr ''File uploaded successfully''),
                     (''filename'', json_str (filename file)),
                     (''s3_key'', json_str s3_key),
                     (''bucket'', JStr (S3_BUCKET_NAME cfg)),
                     (''url'', JStr (file_url cfg s3_key)),
                     (''content_type'', json_str (content_type file)),
                     (''size'', JNum (int (length file_contents)))])), calls')
             | Raises e \<Rightarrow> (Inl (upload_failed e), calls')))"

text \<open>\<^verbatim>\<open>POST /upload-multiple\<close>. The loop carries the variable \<^verbatim>\<open>folder\<close>, which the
  body reassigns, the two lists it appends to, and the record of storage calls. The body
  is one \<^verbatim>\<open>try\<close>: a read that raises gives a failure entry before the folder is
  reassigned and without a storage call.\<close>

record loop_state =
  folder_var :: "string option"
  results :: "json list"
  errors :: "json list"
  calls_made :: "storage_call list"

definition upload_step :: "config \<Rightarrow> s3_client \<Rightarrow> upload \<Rightarrow> loop_state \<Rightarrow> loop_state" where
  "upload_step cfg s3 file st =
     (case read file of
        Inl e \<Rightarrow>
          st\<lparr>errors := errors st @
                [JObj [(''filename'', json_str (filename file)),
                       (''status'', JStr ''failed''),
                       (''error'', JStr (str_exn e))]]\<rparr>
      | Inr file_contents \<Rightarrow>
         (let folder' = (case folder_var st of
                           None \<Rightarrow> None
                         | Some f \<Rightarrow> if f \<noteq> [] then Some (rstrip f ''/'' @ ''/'') else Some f);
              s3_key = (case folder_var st of
                          None \<Rightarrow> filename file
                        | Some f \<Rightarrow>
                            if f \<noteq> [] then Some (py_format folder' @ py_format (filename file))
                            else filename file);
              req = \<lparr>Bucket = S3_BUCKET_NAME cfg, Key = s3_key, Body = file_contents,
                     ContentType = content_type file, ACL = None\<rparr>;
              out = put_object s3 (calls_made st) req;
              calls' = calls_made st @ [(req, out)]
          in case out of
               Returns \<Rightarrow>
                 st\<lparr>folder_var := folder',
                    results := results st @
                      [JObj [(''filename'', json_str (filename file)),
                             (''status'', JStr ''success''),
                             (''s3_key'', json_str s3_key),
                             (''url'', JStr (file_url cfg s3_key))]],
                    calls_made := calls'\<rparr>
             | Raises e \<Rightarrow>
                 st\<lparr>folder_var := folder',
                    errors := errors st @
                      [JObj [(''filename'', json_str (filename file)),
                             (''status'', JStr ''failed''),
                             (''error'', JStr (str_exn e))]],
                    calls_made := calls'\<rparr>))"

fun upload_loop :: "config \<Rightarrow> s3_client \<Rightarrow> upload list \<Rightarrow> loop_state \<Rightarrow> loop_state" where
  "upload_loop cfg s3 [] st = st"
| "upload_loop cfg s3 (file # files) st = upload_loop cfg s3 files (upload_step cfg s3 file st)"

definition upload_multiple_files ::
  "config \<Rightarrow> s3_client \<Rightarrow> storage_call list \<Rightarrow> upload list \<Rightarrow> string option
     \<Rightarrow> reply \<times> storage_call list" where
  "upload_multiple_files cfg s3 calls files folder =
     (let st = upload_loop cfg s3 files
                 \<lparr>folder_var = folder, results = [], errors = [], calls_made = calls\<rparr>
      in (Inr (JSONResponse 200 (JObj
            [(''message'', JStr (''Processed '' @ str_nat (length files) @ '' file(s)'')),
             (''successful'', JNum (int (length (results st)))),
             (''failed'', JNum (int (length (errors st)))),
             (''results'', JArr (results st)),
             (''errors'', JArr (errors st))])), calls_made st))"

section \<open>The route of the single-file upload\<close>


section \<open>Observations used in the statements\<close>

text \<open>Reading a decimal numeral back, to say which number a rendered count denotes.\<close>

definition digit_value :: "char \<Rightarrow> nat" where
  "digit_value c = of_char c - 48"

definition read_nat :: "string \<Rightarrow> nat" where
  "read_nat s = foldl (\<lambda>a c. 10 * a + digit_value c) 0 s"

text \<open>The storage calls a handler added to the record it was given.\<close>

definition new_calls :: "storage_call list \<Rightarrow> reply \<times> storage_call list \<Rightarrow> storage_call list" where
  "new_calls calls r = drop (length calls) (snd r)"

text \<open>Whether the read of a file returns, and the bytes it returns.\<close>

definition readable :: "upload \<Rightarrow> bool" where
  "readable file = (case read file of Inl e \<Rightarrow> False | Inr b \<Rightarrow> True)"

definition payload_of :: "upload \<Rightarrow> byte list" where
  "payload_of file = (case read file of Inl e \<Rightarrow> [] | Inr b \<Rightarrow> b)"

text \<open>The key both handlers compute, written as one function of the request's folder and
  the file's name; \<open>upload_file_key\<close> and \<open>upload_step_key\<close> below show that
  the expressions of the two handlers compute exactly this key.\<close>

definition key_for :: "string option \<Rightarrow> string option \<Rightarrow> string option" where
  "key_for folder name =
     (case folder of
        None \<Rightarrow> name
      | Some f \<Rightarrow> if f \<noteq> [] then Some (rstrip f ''/'' @ ''/'' @ py_format name) else name)"

text \<open>The request the single-file handler issues for a file it could read.\<close>

definition single_request :: "config \<Rightarrow> string option \<Rightarrow> upload \<Rightarrow> put_request" where
  "single_request cfg folder file =
     \<lparr>Bucket = S3_BUCKET_NAME cfg, Key = key_for folder (filename file),
      Body = payload_of file, ContentType = content_type file, ACL = Some ''public-read''\<rparr>"

text \<open>The request the batch loop issues for a file it could read.\<close>

definition batch_request :: "config \<Rightarrow> string option \<Rightarrow> upload \<Rightarrow> put_request" where
  "batch_request cfg folder file =
     \<lparr>Bucket = S3_BUCKET_NAME cfg, Key = key_for folder (filename file),
      Body = payload_of file, ContentType = content_type file, ACL = None\<rparr>"

text \<open>What happened to one file of a batch: its read raised, or it was written with some
  outcome. \<open>pair_up\<close> lines the files of a batch up with the storage calls of that batch:
  a file whose read raised has no call, every other file takes the next one.\<close>

datatype attempt = ReadRaised py_exn | Wrote storage_call

fun pair_up :: "upload list \<Rightarrow> storage_call list \<Rightarrow> (upload \<times> attempt) list" where
  "pair_up [] cs = []"
| "pair_up (f # fs) cs =
     (case read f of
        Inl e \<Rightarrow> (f, ReadRaised e) # pair_up fs cs
      | Inr b \<Rightarrow> (case cs of [] \<Rightarrow> [] | c # cs' \<Rightarrow> (f, Wrote c) # pair_up fs cs'))"

fun succeeded :: "upload \<times> attempt \<Rightarrow> bool" where
  "succeeded (f, Wrote (req, Returns)) = True"
| "succeeded (f, Wrote (req, Raises e)) = False"
| "succeeded (f, ReadRaised e) = False"

text \<open>The entries one file contributes to the two report lists (none or one each).\<close>

fun result_entries :: "config \<Rightarrow> upload \<times> attempt \<Rightarrow> json list" where
  "result_entries cfg (f, Wrote (req, Returns)) =
     [JObj [(''filename'', json_str (filename f)),
            (''status'', JStr ''success''),
            (''s3_key'', json_str (Key req)),
            (''url'', JStr (file_url cfg (Key req)))]]"
| "result_entries cfg (f, Wrote (req, Raises e)) = []"
| "result_entries cfg (f, ReadRaised e) = []"

fun error_entries :: "upload \<times> attempt \<Rightarrow> json list" where
  "error_entries (f, Wrote (req, Returns)) = []"
| "error_entries (f, Wrote (req, Raises e)) =
     [JObj [(''filename'', json_str (filename f)),
            (''status'', JStr ''failed''),
            (''error'', JStr (str_exn e))]]"
| "error_entries (f, ReadRaised e) =
     [JObj [(''filename'', json_str (filename f)),
            (''status'', JStr ''failed''),
            (''error'', JStr (str_exn e))]]"

section \<open>Concrete requests and storage behaviours\<close>

text \<open>The defaults of the configuration, three storage clients (one that accepts every
  call, one that refuses every call with a provider error, one whose second write fails
  with a fault that is not a provider error) and a few files, one of which cannot be
  read.\<close>

definition default_config :: config where
  "default_config = \<lparr>S3_BUCKET_NAME = ''study2material'', AWS_REGION = ''eu-north-1''\<rparr>"

definition access_denied :: py_exn where
  "access_denied =
     ClientError [(''Error'', [(''Code'', ''AccessDenied''), (''Message'', ''Access Denied'')])]
       ''PutObject'' None"

definition forbidden :: py_exn where
  "forbidden =
     ClientError [(''Error'', [(''Code'', ''403''), (''Message'', ''Forbidden'')])]
       ''HeadBucket'' None"

definition accepting_client :: s3_client where
  "accepting_client = \<lparr>head_bucket = (\<lambda>b. Returns), put_object = (\<lambda>calls req. Returns)\<rparr>"

definition refusing_client :: s3_client where
  "refusing_client =
     \<lparr>head_bucket = (\<lambda>b. Raises forbidden),
      put_object = (\<lambda>calls req. Raises access_denied)\<rparr>"

definition second_write_fails :: s3_client where
  "second_write_fails =
     \<lparr>head_bucket = (\<lambda>b. Returns),
      put_object = (\<lambda>calls req.
        if length calls = 1 then Raises (OtherException ''Connection was closed'') else Returns)\<rparr>"

definition note_txt :: upload where
  "note_txt = \<lparr>filename = Some ''note.txt'', content_type = Some ''text/plain'',
                read = Inr [104, 101, 108, 108, 111, 32, 116, 101, 120, 116]\<rparr>"

definition a_pdf :: upload where
  "a_pdf = \<lparr>filename = Some ''a.pdf'', content_type = Some ''application/pdf'',
             read = Inr [37, 80, 68, 70]\<rparr>"

definition b_png :: upload where
  "b_png = \<lparr>filename = Some ''b.png'', content_type = Some ''image/png'',
             read = Inr [137, 80, 78, 71]\<rparr>"

definition closed_file :: upload where
  "closed_file = \<lparr>filename = Some ''c.bin'', content_type = Some ''application/octet-stream'',
                   read = Inl (OtherException ''I/O operation on closed file.'')\<rparr>"


definition earlier_call :: "storage_call list" where
  "earlier_call =
     [(\<lparr>Bucket = ''study2material'', Key = Some ''a.pdf'', Body = [37, 80, 68, 70],
        ContentType = Some ''application/pdf'', ACL = Some ''public-read''\<rparr>, Returns)]"

section \<open>Stripping trailing slashes\<close>

lemma rstrip_append_sep: "rstrip (rstrip f ''/'' @ ''/'') ''/'' = rstrip f ''/''"
proof -
  have "dropWhile (\<lambda>c. c \<in> set ''/'') (rev (rstrip f ''/'')) = rev (rstrip f ''/'')"
    unfolding rstrip_def rev_rev_ident by (rule dropWhile_idem)
  then show ?thesis
    by (simp add: rstrip_def)
qed

lemma rstrip_no_trailing: "rstrip f ''/'' = [] \<or> last (rstrip f ''/'') \<noteq> CHR ''/''"
proof (cases "dropWhile (\<lambda>c. c \<in> set ''/'') (rev f)")
  case Nil
  then show ?thesis by (simp add: rstrip_def)
next
  case (Cons c cs)
  then have "\<not> c \<in> set ''/''"
    using hd_dropWhile [of "\<lambda>c. c \<in> set ''/''" "rev f"] by auto
  with Cons show ?thesis by (simp add: rstrip_def)
qed

lemma rstrip_decompose:
  "f = rstrip f ''/'' @ replicate (length f - length (rstrip f ''/'')) CHR ''/''"
proof -
  let ?P = "\<lambda>c. c \<in> set ''/''"
  have tw: "takeWhile ?P (rev f) = replicate (length (takeWhile ?P (rev f))) CHR ''/''"
    by (rule replicate_length_same [symmetric]) (auto dest: set_takeWhileD)
  have "rev f = takeWhile ?P (rev f) @ dropWhile ?P (rev f)" by simp
  then have "f = rev (dropWhile ?P (rev f)) @ rev (takeWhile ?P (rev f))"
    by (metis rev_append rev_rev_ident)
  moreover have "length f - length (rstrip f ''/'') = length (takeWhile ?P (rev f))"
    using length_append [of "takeWhile ?P (rev f)" "dropWhile ?P (rev f)"]
    by (simp add: rstrip_def del: length_append)
  ultimately show ?thesis
    using tw by (metis rev_replicate rstrip_def)
qed

lemma key_for_normalised:
  "f \<noteq> [] \<Longrightarrow> key_for (Some (rstrip f ''/'' @ ''/'')) name = key_for (Some f) name"
  by (simp add: key_for_def rstrip_append_sep)

section \<open>The storage calls of the handlers\<close>

lemma readable_iff: "readable file \<longleftrightarrow> (\<exists>b. read file = Inr b)"
  by (cases "read file") (simp_all add: readable_def)

lemma readable_payload: "readable file \<Longrightarrow> read file = Inr (payload_of file)"
  by (cases "read file") (simp_all add: readable_def payload_of_def)

lemma unreadable_iff: "\<not> readable file \<longleftrightarrow> (\<exists>e. read file = Inl e)"
  by (cases "read file") (simp_all add: readable_def)

lemma upload_file_key:
  "(case folder of
      None \<Rightarrow> filename file
    | Some f \<Rightarrow>
        if f \<noteq> [] then Some ((rstrip f ''/'' @ ''/'') @ py_format (filename file))
        else filename file) = key_for folder (filename file)"
  by (simp add: key_for_def split: option.splits)

lemma upload_file_unreadable:
  "read file = Inl e \<Longrightarrow> upload_file cfg s3 calls file folder = (Inl (upload_failed e), calls)"
  by (simp add: upload_file_def)

lemma upload_file_request:
  assumes "readable file"
  shows "snd (upload_file cfg s3 calls file folder) =
     calls @ [(single_request cfg folder file,
               put_object s3 calls (single_request cfg folder file))]"
  unfolding upload_file_def Let_def upload_file_key single_request_def
  by (simp add: readable_payload [OF assms] split: outcome.splits)

lemma single_new_calls:
  "new_calls calls (upload_file cfg s3 calls file folder) =
     (if readable file
      then [(single_request cfg folder file, put_object s3 calls (single_request cfg folder file))]
      else [])"
proof (cases "readable file")
  case True
  then show ?thesis by (simp add: new_calls_def upload_file_request)
next
  case False
  then obtain e where "read file = Inl e" by (auto simp: unreadable_iff)
  with False show ?thesis by (simp add: new_calls_def upload_file_unreadable)
qed

lemma single_key:
  "map (Key \<circ> fst) (new_calls calls (upload_file cfg s3 calls file folder)) =
     (if readable file then [key_for folder (filename file)] else [])"
  by (simp add: single_new_calls single_request_def)

lemma single_outcome:
  "map snd (new_calls calls (upload_file cfg s3 calls file folder)) = [out] \<longleftrightarrow>
     readable file \<and> put_object s3 calls (single_request cfg folder file) = out"
  by (simp add: single_new_calls)

lemma upload_file_returns:
  assumes "readable file" and "put_object s3 calls (single_request cfg folder file) = Returns"
  shows "fst (upload_file cfg s3 calls file folder) =
     Inr (JSONResponse 200 (JObj
       [(''message'', JStr ''File uploaded successfully''),
        (''filename'', json_str (filename file)),
        (''s3_key'', json_str (key_for folder (filename file))),
        (''bucket'', JStr (S3_BUCKET_NAME cfg)),
        (''url'', JStr (file_url cfg (key_for folder (filename file)))),
        (''content_type'', json_str (content_type file)),
        (''size'', JNum (int (length (payload_of file))))]))"
  using assms(2)
  unfolding upload_file_def Let_def upload_file_key single_request_def
  by (simp add: readable_payload [OF assms(1)])

lemma upload_file_raises:
  assumes "readable file" and "put_object s3 calls (single_request cfg folder file) = Raises e"
  shows "fst (upload_file cfg s3 calls file folder) = Inl (upload_failed e)"
  using assms(2)
  unfolding upload_file_def Let_def upload_file_key single_request_def
  by (simp add: readable_payload [OF assms(1)])

lemma upload_failed_client_error:
  "upload_failed (ClientError r operation_name retries) =
     HTTPException 500
       (''S3 upload failed: '' @ dict_get (dict_get r ''Error'' []) ''Code'' ''Unknown''
          @ '' - '' @ dict_get (dict_get r ''Error'' []) ''Message''
                        (str_exn (ClientError r operation_name retries)))"
  by (simp add: upload_failed_def Let_def)

lemma upload_failed_other:
  "upload_failed (OtherException s) = HTTPException 500 (''Upload failed: '' @ s)"
  by (simp add: upload_failed_def)

lemma upload_step_key:
  "(case folder_var st of
      None \<Rightarrow> filename file
    | Some f \<Rightarrow>
        if f \<noteq> []
        then Some (py_format (case folder_var st of
                       None \<Rightarrow> None
                     | Some f \<Rightarrow> if f \<noteq> [] then Some (rstrip f ''/'' @ ''/'') else Some f)
                   @ py_format (filename file))
        else filename file) = key_for (folder_var st) (filename file)"
  by (simp add: key_for_def py_format_def split: option.splits)

lemma upload_step_unreadable:
  "read file = Inl e \<Longrightarrow>
     upload_step cfg s3 file st = st\<lparr>errors := errors st @ error_entries (file, ReadRaised e)\<rparr>"
  by (simp add: upload_step_def)

lemma upload_step_calls:
  assumes "readable file"
  shows "calls_made (upload_step cfg s3 file st) =
     calls_made st @ [(batch_request cfg (folder_var st) file,
                       put_object s3 (calls_made st) (batch_request cfg (folder_var st) file))]"
  unfolding upload_step_def Let_def upload_step_key batch_request_def
  by (simp add: readable_payload [OF assms] split: outcome.splits)

lemma upload_step_results:
  assumes "readable file"
  shows "results (upload_step cfg s3 file st) =
     results st @ result_entries cfg (file, Wrote (batch_request cfg (folder_var st) file,
                       put_object s3 (calls_made st) (batch_request cfg (folder_var st) file)))"
  unfolding upload_step_def Let_def upload_step_key batch_request_def
  by (simp add: readable_payload [OF assms] split: outcome.splits)

lemma upload_step_errors:
  assumes "readable file"
  shows "errors (upload_step cfg s3 file st) =
     errors st @ error_entries (file, Wrote (batch_request cfg (folder_var st) file,
                       put_object s3 (calls_made st) (batch_request cfg (folder_var st) file)))"
  unfolding upload_step_def Let_def upload_step_key batch_request_def
  by (simp add: readable_payload [OF assms] split: outcome.splits)

lemma upload_step_folder:
  "key_for (folder_var (upload_step cfg s3 file st)) name = key_for (folder_var st) name"
proof (cases "read file")
  case (Inl e)
  then show ?thesis by (simp add: upload_step_unreadable)
next
  case (Inr b)
  then have "folder_var (upload_step cfg s3 file st) =
          (case folder_var st of
             None \<Rightarrow> None
           | Some f \<Rightarrow> if f \<noteq> [] then Some (rstrip f ''/'' @ ''/'') else Some f)"
    unfolding upload_step_def Let_def by (simp split: outcome.splits)
  then show ?thesis
    by (simp add: key_for_normalised split: option.splits)
qed

lemma batch_request_step:
  "batch_request cfg (folder_var (upload_step cfg s3 file st)) = batch_request cfg (folder_var st)"
  by (rule ext) (simp add: batch_request_def upload_step_folder)

lemma upload_loop_char:
  "\<exists>new. calls_made (upload_loop cfg s3 files st) = calls_made st @ new
     \<and> map fst new = map (batch_request cfg (folder_var st)) (filter readable files)
     \<and> results (upload_loop cfg s3 files st)
         = results st @ concat (map (result_entries cfg) (pair_up files new))
     \<and> errors (upload_loop cfg s3 files st)
         = errors st @ concat (map error_entries (pair_up files new))"
proof (induction files arbitrary: st)
  case Nil
  then show ?case by simp
next
  case (Cons x xs)
  let ?st = "upload_step cfg s3 x st"
  from Cons.IH [of ?st] obtain new where
    c: "calls_made (upload_loop cfg s3 xs ?st) = calls_made ?st @ new" and
    q: "map fst new = map (batch_request cfg (folder_var ?st)) (filter readable xs)" and
    r: "results (upload_loop cfg s3 xs ?st)
          = results ?st @ concat (map (result_entries cfg) (pair_up xs new))" and
    e: "errors (upload_loop cfg s3 xs ?st)
          = errors ?st @ concat (map error_entries (pair_up xs new))"
    by blast
  show ?case
  proof (cases "read x")
    case (Inl ex)
    then have nr: "\<not> readable x" by (simp add: readable_def)
    have st: "?st = st\<lparr>errors := errors st @ error_entries (x, ReadRaised ex)\<rparr>"
      using Inl by (rule upload_step_unreadable)
    have "calls_made (upload_loop cfg s3 (x # xs) st) = calls_made st @ new"
      using c by (simp add: st)
    moreover have "map fst new = map (batch_request cfg (folder_var st)) (filter readable (x # xs))"
      using q nr by (simp add: batch_request_step)
    moreover have "results (upload_loop cfg s3 (x # xs) st)
        = results st @ concat (map (result_entries cfg) (pair_up (x # xs) new))"
      using r Inl by (simp add: st)
    moreover have "errors (upload_loop cfg s3 (x # xs) st)
        = errors st @ concat (map error_entries (pair_up (x # xs) new))"
      using e Inl by (simp add: st)
    ultimately show ?thesis by blast
  next
    case (Inr b)
    then have rd: "readable x" by (simp add: readable_def)
    let ?c = "(batch_request cfg (folder_var st) x,
               put_object s3 (calls_made st) (batch_request cfg (folder_var st) x))"
    have "calls_made (upload_loop cfg s3 (x # xs) st) = calls_made st @ (?c # new)"
      using c by (simp add: upload_step_calls [OF rd])
    moreover have "map fst (?c # new)
        = map (batch_request cfg (folder_var st)) (filter readable (x # xs))"
      using q rd by (simp add: batch_request_step)
    moreover have "results (upload_loop cfg s3 (x # xs) st)
        = results st @ concat (map (result_entries cfg) (pair_up (x # xs) (?c # new)))"
      using r Inr by (simp add: upload_step_results [OF rd])
    moreover have "errors (upload_loop cfg s3 (x # xs) st)
        = errors st @ concat (map error_entries (pair_up (x # xs) (?c # new)))"
      using e Inr by (simp add: upload_step_errors [OF rd])
    ultimately show ?thesis by blast
  qed
qed

section \<open>The batch as a whole\<close>

lemma batch_calls:
  "snd (upload_multiple_files cfg s3 calls files folder) =
     calls @ new_calls calls (upload_multiple_files cfg s3 calls files folder)"
  using upload_loop_char [of cfg s3 files
      "\<lparr>folder_var = folder, results = [], errors = [], calls_made = calls\<rparr>"]
  by (auto simp: upload_multiple_files_def new_calls_def Let_def)

lemma batch_requests:
  "map fst (new_calls calls (upload_multiple_files cfg s3 calls files folder)) =
     map (batch_request cfg folder) (filter readable files)"
  using upload_loop_char [of cfg s3 files
      "\<lparr>folder_var = folder, results = [], errors = [], calls_made = calls\<rparr>"]
  by (auto simp: upload_multiple_files_def new_calls_def Let_def)

lemma batch_reply:
  "fst (upload_multiple_files cfg s3 calls files folder) =
     Inr (JSONResponse 200 (JObj
       [(''message'', JStr (''Processed '' @ str_nat (length files) @ '' file(s)'')),
        (''successful'', JNum (int (length (concat (map (result_entries cfg)
            (pair_up files (new_calls calls (upload_multiple_files cfg s3 calls files folder)))))))),
        (''failed'', JNum (int (length (concat (map error_entries
            (pair_up files (new_calls calls (upload_multiple_files cfg s3 calls files folder)))))))),
        (''results'', JArr (concat (map (result_entries cfg)
            (pair_up files (new_calls calls (upload_multiple_files cfg s3 calls files folder)))))),
        (''errors'', JArr (concat (map error_entries
            (pair_up files (new_calls calls (upload_multiple_files cfg s3 calls files folder))))))]))"
  using upload_loop_char [of cfg s3 files
      "\<lparr>folder_var = folder, results = [], errors = [], calls_made = calls\<rparr>"]
  by (auto simp: upload_multiple_files_def new_calls_def Let_def)

lemma batch_body:
  "body_of (fst (upload_multiple_files cfg s3 calls files folder)) =
     JObj
       [(''message'', JStr (''Processed '' @ str_nat (length files) @ '' file(s)'')),
        (''successful'', JNum (int (length (concat (map (result_entries cfg)
            (pair_up files (new_calls calls (upload_multiple_files cfg s3 calls files folder)))))))),
        (''failed'', JNum (int (length (concat (map error_entries
            (pair_up files (new_calls calls (upload_multiple_files cfg s3 calls files folder)))))))),
        (''results'', JArr (concat (map (result_entries cfg)
            (pair_up files (new_calls calls (upload_multiple_files cfg s3 calls files folder)))))),
        (''errors'', JArr (concat (map error_entries
            (pair_up files (new_calls calls (upload_multiple_files cfg s3 calls files folder))))))]"
  by (subst batch_reply) simp

lemma batch_keys:
  "map (Key \<circ> fst) (new_calls calls (upload_multiple_files cfg s3 calls files folder)) =
     map (\<lambda>file. key_for folder (filename file)) (filter readable files)"
proof -
  have "map Key (map fst (new_calls calls (upload_multiple_files cfg s3 calls files folder))) =
          map Key (map (batch_request cfg folder) (filter readable files))"
    by (simp only: batch_requests)
  then show ?thesis by (simp add: batch_request_def comp_def)
qed

lemma batch_length:
  "length (new_calls calls (upload_multiple_files cfg s3 calls files folder))
     = length (filter readable files)"
  using arg_cong [OF batch_requests [of calls cfg s3 files folder], of length] by simp

lemma pair_up_files:
  "length cs = length (filter readable files) \<Longrightarrow> map fst (pair_up files cs) = files"
proof (induction files arbitrary: cs)
  case Nil
  then show ?case by simp
next
  case (Cons x xs)
  show ?case
  proof (cases "read x")
    case (Inl e)
    with Cons show ?thesis by (simp add: readable_def)
  next
    case (Inr b)
    then have "readable x" by (simp add: readable_def)
    with Cons.prems have "length cs = Suc (length (filter readable xs))" by simp
    then obtain c cs' where "cs = c # cs'" "length cs' = length (filter readable xs)"
      by (auto simp: length_Suc_conv)
    with Inr Cons.IH show ?thesis by simp
  qed
qed

lemma batch_pair_up:
  "map fst (pair_up files (new_calls calls (upload_multiple_files cfg s3 calls files folder)))
     = files"
  by (rule pair_up_files) (rule batch_length)

lemma entry_count: "length (result_entries cfg p) + length (error_entries p) = 1"
  by (cases "(cfg, p)" rule: result_entries.cases) simp_all

lemma entries_total:
  "length (concat (map (result_entries cfg) ps)) + length (concat (map error_entries ps))
     = length ps"
proof (induction ps)
  case Nil
  then show ?case by simp
next
  case (Cons p ps)
  then show ?case using entry_count [of cfg p] by simp
qed

lemma result_entry_name:
  "map (field ''filename'') (result_entries cfg p)
     = (if succeeded p then [Some (json_str (filename (fst p)))] else [])"
  by (cases "(cfg, p)" rule: result_entries.cases) simp_all

lemma error_entry_name:
  "map (field ''filename'') (error_entries p)
     = (if succeeded p then [] else [Some (json_str (filename (fst p)))])"
  by (cases p rule: error_entries.cases) simp_all

lemma result_filenames:
  "map (field ''filename'') (concat (map (result_entries cfg) ps))
     = map (\<lambda>p. Some (json_str (filename (fst p)))) (filter succeeded ps)"
  by (induction ps) (simp_all add: result_entry_name)

lemma error_filenames:
  "map (field ''filename'') (concat (map error_entries ps))
     = map (\<lambda>p. Some (json_str (filename (fst p)))) (filter (\<lambda>p. \<not> succeeded p) ps)"
  by (induction ps) (simp_all add: error_entry_name)

lemma error_entry_length: "length (error_entries p) = (if succeeded p then 0 else 1)"
  by (cases p rule: error_entries.cases) simp_all

lemma error_entries_count:
  "length (concat (map error_entries ps)) = length (filter (\<lambda>p. \<not> succeeded p) ps)"
  by (induction ps) (simp_all add: error_entry_length)

lemma failures_split:
  "length cs = length (filter readable files) \<Longrightarrow>
     length (filter (\<lambda>p. \<not> succeeded p) (pair_up files cs))
       = length (filter (\<lambda>f. \<not> readable f) files)
         + length (filter (\<lambda>c. snd c \<noteq> Returns) cs)"
proof (induction files arbitrary: cs)
  case Nil
  then show ?case by simp
next
  case (Cons x xs)
  show ?case
  proof (cases "read x")
    case (Inl e)
    with Cons show ?thesis by (simp add: readable_def)
  next
    case (Inr b)
    then have rd: "readable x" by (simp add: readable_def)
    with Cons.prems have "length cs = Suc (length (filter readable xs))" by simp
    then obtain c cs' where cs: "cs = c # cs'"
      and len: "length cs' = length (filter readable xs)"
      by (auto simp: length_Suc_conv)
    obtain req out where c: "c = (req, out)" by (cases c)
    show ?thesis
      using Cons.IH [OF len] Inr rd
      by (cases out) (simp_all add: cs c)
  qed
qed

lemma mset_map_partition:
  "mset (map f (filter P xs)) + mset (map f (filter (\<lambda>x. \<not> P x) xs)) = mset (map f xs)"
  by (induction xs) simp_all

lemma digit_value_digit: "d < 10 \<Longrightarrow> digit_value (digit d) = d"
proof -
  assume "d < 10"
  then have "d = 0 \<or> d = 1 \<or> d = 2 \<or> d = 3 \<or> d = 4 \<or> d = 5 \<or> d = 6
    \<or> d = 7 \<or> d = 8 \<or> d = 9"
    by arith
  then show ?thesis
    by (elim disjE) (simp_all add: digit_def digit_value_def)
qed

lemma read_nat_snoc: "read_nat (s @ [c]) = 10 * read_nat s + digit_value c"
  by (simp add: read_nat_def)

lemma read_nat_str_nat: "read_nat (str_nat n) = n"
proof (induction n rule: str_nat.induct)
  case (1 n)
  show ?case
  proof (cases "n < 10")
    case True
    then show ?thesis
      by (simp add: str_nat.simps [of n] read_nat_def digit_value_digit)
  next
    case False
    then have "read_nat (str_nat (n div 10)) = n div 10"
      using "1.IH" by simp
    with False show ?thesis
      by (simp add: str_nat.simps [of n] read_nat_snoc digit_value_digit)
  qed
qed

lemma str_nat_small: "str_nat 2 = ''2''" "str_nat 3 = ''3''"
  by (simp_all add: str_nat.simps digit_def)

lemma rstrip_docs: "rstrip ''docs//'' ''/'' = ''docs''"
  by (simp add: rstrip_def)

lemma str_exn_nonempty: "str_exn (ClientError r operation_name retries) \<noteq> []"
  by simp

section \<open>Three batches run to the end\<close>

lemma three_files_batch:
  "upload_multiple_files default_config second_write_fails [] [a_pdf, note_txt, b_png] None =
    (Inr (JSONResponse 200 (JObj
       [(''message'', JStr ''Processed 3 file(s)''),
        (''successful'', JNum 2),
        (''failed'', JNum 1),
        (''results'', JArr
           [JObj [(''filename'', JStr ''a.pdf''), (''status'', JStr ''success''),
                  (''s3_key'', JStr ''a.pdf''),
                  (''url'', JStr ''https://study2material.s3.eu-north-1.amazonaws.com/a.pdf'')],
            JObj [(''filename'', JStr ''b.png''), (''status'', JStr ''success''),
                  (''s3_key'', JStr ''b.png''),
                  (''url'', JStr ''https://study2material.s3.eu-north-1.amazonaws.com/b.png'')]]),
        (''errors'', JArr
           [JObj [(''filename'', JStr ''note.txt''), (''status'', JStr ''failed''),
                  (''error'', JStr ''Connection was closed'')]])])),
     [(\<lparr>Bucket = ''study2material'', Key = Some ''a.pdf'', Body = [37, 80, 68, 70],
        ContentType = Some ''application/pdf'', ACL = None\<rparr>, Returns),
      (\<lparr>Bucket = ''study2material'', Key = Some ''note.txt'',
        Body = [104, 101, 108, 108, 111, 32, 116, 101, 120, 116],
        ContentType = Some ''text/plain'', ACL = None\<rparr>,
       Raises (OtherException ''Connection was closed'')),
      (\<lparr>Bucket = ''study2material'', Key = Some ''b.png'', Body = [137, 80, 78, 71],
        ContentType = Some ''image/png'', ACL = None\<rparr>, Returns)])"
  by (simp add: upload_multiple_files_def upload_step_def Let_def default_config_def
      second_write_fails_def a_pdf_def note_txt_def b_png_def json_str_def file_url_def
      py_format_def str_nat.simps digit_def)

lemma unreadable_and_refused_batch:
  "upload_multiple_files default_config refusing_client [] [a_pdf, closed_file, b_png]
     (Some ''docs/'') =
    (Inr (JSONResponse 200 (JObj
       [(''message'', JStr ''Processed 3 file(s)''),
        (''successful'', JNum 0),
        (''failed'', JNum 3),
        (''results'', JArr []),
        (''errors'', JArr
           [JObj [(''filename'', JStr ''a.pdf''), (''status'', JStr ''failed''),
                  (''error'', JStr (str_exn access_denied))],
            JObj [(''filename'', JStr ''c.bin''), (''status'', JStr ''failed''),
                  (''error'', JStr ''I/O operation on closed file.'')],
            JObj [(''filename'', JStr ''b.png''), (''status'', JStr ''failed''),
                  (''error'', JStr (str_exn access_denied))]])])),
     [(\<lparr>Bucket = ''study2material'', Key = Some ''docs/a.pdf'', Body = [37, 80, 68, 70],
        ContentType = Some ''application/pdf'', ACL = None\<rparr>, Raises access_denied),
      (\<lparr>Bucket = ''study2material'', Key = Some ''docs/b.png'', Body = [137, 80, 78, 71],
        ContentType = Some ''image/png'', ACL = None\<rparr>, Raises access_denied)])"
  by (simp add: upload_multiple_files_def upload_step_def Let_def default_config_def
      refusing_client_def a_pdf_def b_png_def closed_file_def json_str_def file_url_def
      py_format_def str_nat.simps digit_def rstrip_def)

lemma unreadable_middle_batch:
  "upload_multiple_files default_config accepting_client [] [a_pdf, closed_file, b_png] None =
    (Inr (JSONResponse 200 (JObj
       [(''message'', JStr ''Processed 3 file(s)''),
        (''successful'', JNum 2),
        (''failed'', JNum 1),
        (''results'', JArr
           [JObj [(''filename'', JStr ''a.pdf''), (''status'', JStr ''success''),
                  (''s3_key'', JStr ''a.pdf''),
                  (''url'', JStr ''https://study2material.s3.eu-north-1.amazonaws.com/a.pdf'')],
            JObj [(''filename'', JStr ''b.png''), (''status'', JStr ''success''),
                  (''s3_key'', JStr ''b.png''),
                  (''url'', JStr ''https://study2material.s3.eu-north-1.amazonaws.com/b.png'')]]),
        (''errors'', JArr
           [JObj [(''filename'', JStr ''c.bin''), (''status'', JStr ''failed''),
                  (''error'', JStr ''I/O operation on closed file.'')]])])),
     [(\<lparr>Bucket = ''study2material'', Key = Some ''a.pdf'', Body = [37, 80, 68, 70],
        ContentType = Some ''application/pdf'', ACL = None\<rparr>, Returns),
      (\<lparr>Bucket = ''study2material'', Key = Some ''b.png'', Body = [137, 80, 78, 71],
        ContentType = Some ''image/png'', ACL = None\<rparr>, Returns)])"
  by (simp add: upload_multiple_files_def upload_step_def Let_def default_config_def
      accepting_client_def a_pdf_def b_png_def closed_file_def json_str_def file_url_def
      py_format_def str_nat.simps digit_def)

lemma readable_examples:
  "readable a_pdf" "readable b_png" "readable note_txt" "\<not> readable closed_file"
  by (simp_all add: readable_def a_pdf_def b_png_def note_txt_def closed_file_def)

lemma named_readable_keys:
  assumes "map filename files = map Some names"
  shows "map (\<lambda>file. g (filename file)) (filter readable files)
           = map (\<lambda>p. g (Some (snd p))) (filter (\<lambda>p. readable (fst p)) (zip files names))"
proof -
  have "length files = length names"
    using arg_cong [OF assms, of length] by simp
  then show ?thesis
    using assms by (induction files names rule: list_induct2) simp_all
qed

section \<open>The storage key\<close>

text \<open>
  Claim C1. For every folder and every file name, the key that the single-file handler and
  the batch handler pass to the storage is the file name unchanged when the folder is absent
  or empty; otherwise it is the folder stripped of its trailing slashes (the folder is that
  stem followed by slashes only, and the stem does not end in a slash), then exactly one
  slash, then the file name. This is the key of every write that is issued, which is one
  for each file whose read returns; in a batch it holds for every such file, although the
  loop reassigns the folder variable.
\<close>

theorem key_construction:
  assumes "filename file = Some n" and "map filename files = map Some names"
  shows "(folder = None \<or> folder = Some [] \<longrightarrow>
            map (Key \<circ> fst) (new_calls calls (upload_file cfg s3 calls file folder))
              = (if readable file then [Some n] else [])
          \<and> map (Key \<circ> fst) (new_calls calls (upload_multiple_files cfg s3 calls files folder))
              = map (\<lambda>p. Some (snd p)) (filter (\<lambda>p. readable (fst p)) (zip files names)))
       \<and> (\<forall>f. folder = Some f \<and> f \<noteq> [] \<longrightarrow>
            (\<exists>k. f = rstrip f ''/'' @ replicate k CHR ''/'')
          \<and> (rstrip f ''/'' = [] \<or> last (rstrip f ''/'') \<noteq> CHR ''/'')
          \<and> map (Key \<circ> fst) (new_calls calls (upload_file cfg s3 calls file folder))
              = (if readable file then [Some (rstrip f ''/'' @ ''/'' @ n)] else [])
          \<and> map (Key \<circ> fst) (new_calls calls (upload_multiple_files cfg s3 calls files folder))
              = map (\<lambda>p. Some (rstrip f ''/'' @ ''/'' @ snd p))
                  (filter (\<lambda>p. readable (fst p)) (zip files names)))"
proof -
  have names: "map (\<lambda>file. key_for fo (filename file)) (filter readable files)
                 = map (\<lambda>p. key_for fo (Some (snd p)))
                     (filter (\<lambda>p. readable (fst p)) (zip files names))" for fo
    using assms(2) by (rule named_readable_keys)
  have absent: "key_for None (Some m) = Some m" "key_for (Some []) (Some m) = Some m" for m
    by (simp_all add: key_for_def)
  have given: "f \<noteq> [] \<Longrightarrow> key_for (Some f) (Some m) = Some (rstrip f ''/'' @ ''/'' @ m)"
    for f m
    by (simp add: key_for_def py_format_def)
  show ?thesis
  proof (intro conjI impI allI)
    assume "folder = None \<or> folder = Some []"
    then show "map (Key \<circ> fst) (new_calls calls (upload_file cfg s3 calls file folder))
                = (if readable file then [Some n] else [])"
      by (auto simp: single_key assms(1) absent)
  next
    assume "folder = None \<or> folder = Some []"
    then show "map (Key \<circ> fst) (new_calls calls (upload_multiple_files cfg s3 calls files folder))
              = map (\<lambda>p. Some (snd p)) (filter (\<lambda>p. readable (fst p)) (zip files names))"
      by (auto simp: batch_keys names absent)
  next
    fix f assume "folder = Some f \<and> f \<noteq> []"
    show "\<exists>k. f = rstrip f ''/'' @ replicate k CHR ''/''"
      using rstrip_decompose [of f] by blast
  next
    fix f assume "folder = Some f \<and> f \<noteq> []"
    show "rstrip f ''/'' = [] \<or> last (rstrip f ''/'') \<noteq> CHR ''/''"
      by (rule rstrip_no_trailing)
  next
    fix f assume "folder = Some f \<and> f \<noteq> []"
    then show "map (Key \<circ> fst) (new_calls calls (upload_file cfg s3 calls file folder))
              = (if readable file then [Some (rstrip f ''/'' @ ''/'' @ n)] else [])"
      by (auto simp: single_key assms(1) given)
  next
    fix f assume "folder = Some f \<and> f \<noteq> []"
    then show "map (Key \<circ> fst) (new_calls calls (upload_multiple_files cfg s3 calls files folder))
              = map (\<lambda>p. Some (rstrip f ''/'' @ ''/'' @ snd p))
                  (filter (\<lambda>p. readable (fst p)) (zip files names))"
      by (auto simp: batch_keys names given)
  qed
qed

theorem key_construction_witness:
  "filename a_pdf = Some ''a.pdf''
   \<and> map filename [a_pdf, closed_file, b_png] = map Some [''a.pdf'', ''c.bin'', ''b.png'']
   \<and> map (Key \<circ> fst) (new_calls [] (upload_file default_config accepting_client [] a_pdf None))
       = [Some ''a.pdf'']
   \<and> map (Key \<circ> fst)
       (new_calls [] (upload_file default_config accepting_client [] a_pdf (Some ''docs//'')))
       = [Some ''docs/a.pdf'']
   \<and> map (Key \<circ> fst)
       (new_calls [] (upload_multiple_files default_config second_write_fails []
          [a_pdf, closed_file, b_png] (Some ''docs//'')))
       = [Some ''docs/a.pdf'', Some ''docs/b.png'']"
proof -
  have h1: "filename a_pdf = Some ''a.pdf''"
    by (simp add: a_pdf_def)
  have h2: "map filename [a_pdf, closed_file, b_png] = map Some [''a.pdf'', ''c.bin'', ''b.png'']"
    by (simp add: a_pdf_def b_png_def closed_file_def)
  note absent = key_construction [OF h1 h2, of None "[]" default_config accepting_client]
  note given = key_construction [OF h1 h2, of "Some ''docs//''" "[]" default_config]
  show ?thesis
    using h1 h2 absent given [of accepting_client] given [of second_write_fails]
    by (simp add: rstrip_docs readable_examples)
qed

section \<open>The single-file upload\<close>



text \<open>
  Claim C3. When the write of a single-file upload without folder returns, the reply has
  status 200 and reports the byte length of the payload as \<^verbatim>\<open>size\<close>, the file name
  as \<^verbatim>\<open>s3_key\<close>, the content type as \<^verbatim>\<open>content_type\<close>, and as
  \<^verbatim>\<open>url\<close> the fixed template filled with the configured bucket and region,
  which ends in a slash followed by the file name.
\<close>

theorem single_upload_success:
  assumes "filename file = Some n" and "content_type file = Some c" and "read file = Inr b"
    and "map snd (new_calls calls (upload_file cfg s3 calls file None)) = [Returns]"
  shows "http_status (fst (upload_file cfg s3 calls file None)) = 200
       \<and> field ''size'' (body_of (fst (upload_file cfg s3 calls file None)))
           = Some (JNum (int (length b)))
       \<and> field ''s3_key'' (body_of (fst (upload_file cfg s3 calls file None))) = Some (JStr n)
       \<and> field ''content_type'' (body_of (fst (upload_file cfg s3 calls file None)))
           = Some (JStr c)
       \<and> field ''url'' (body_of (fst (upload_file cfg s3 calls file None)))
           = Some (JStr ((''https://'' @ S3_BUCKET_NAME cfg @ ''.s3.'' @ AWS_REGION cfg
                           @ ''.amazonaws.com'') @ ''/'' @ n))
       \<and> map (Key \<circ> fst) (new_calls calls (upload_file cfg s3 calls file None)) = [Some n]"
proof -
  have rd: "readable file" and out: "put_object s3 calls (single_request cfg None file) = Returns"
    using assms(4) by (simp_all add: single_outcome)
  note reply = upload_file_returns [OF rd out]
  have key: "key_for None (filename file) = Some n"
    by (simp add: key_for_def assms(1))
  have bytes: "payload_of file = b"
    by (simp add: payload_of_def assms(3))
  show ?thesis
    unfolding reply single_key key bytes
    by (simp add: assms(1,2) rd json_str_def file_url_def py_format_def)
qed

theorem single_upload_success_witness:
  "filename note_txt = Some ''note.txt'' \<and> content_type note_txt = Some ''text/plain''
   \<and> read note_txt = Inr [104, 101, 108, 108, 111, 32, 116, 101, 120, 116]
   \<and> map snd (new_calls [] (upload_file default_config accepting_client [] note_txt None))
       = [Returns]
   \<and> http_status (fst (upload_file default_config accepting_client [] note_txt None)) = 200
   \<and> field ''size'' (body_of (fst (upload_file default_config accepting_client [] note_txt None)))
       = Some (JNum 10)
   \<and> field ''s3_key''
        (body_of (fst (upload_file default_config accepting_client [] note_txt None)))
       = Some (JStr ''note.txt'')
   \<and> field ''content_type''
        (body_of (fst (upload_file default_config accepting_client [] note_txt None)))
       = Some (JStr ''text/plain'')
   \<and> field ''url'' (body_of (fst (upload_file default_config accepting_client [] note_txt None)))
       = Some (JStr ''https://study2material.s3.eu-north-1.amazonaws.com/note.txt'')"
proof -
  have h1: "filename note_txt = Some ''note.txt''" by (simp add: note_txt_def)
  have h2: "content_type note_txt = Some ''text/plain''" by (simp add: note_txt_def)
  have h3: "read note_txt = Inr [104, 101, 108, 108, 111, 32, 116, 101, 120, 116]"
    by (simp add: note_txt_def)
  have h4: "map snd (new_calls [] (upload_file default_config accepting_client [] note_txt None))
              = [Returns]"
    by (simp add: single_new_calls readable_examples accepting_client_def)
  show ?thesis
    using h1 h2 h3 h4 single_upload_success [OF h1 h2 h3 h4]
    by (simp add: default_config_def)
qed

text \<open>
  Claim C5. When the write of a single-file upload raises, the handler raises an
  \<^verbatim>\<open>HTTPException\<close> with status 500. For a provider error that carries a code and a
  message the detail is \<^verbatim>\<open>S3 upload failed: <code> - <message>\<close> with exactly
  these two (a missing code reads \<^verbatim>\<open>Unknown\<close>, a missing message is the text of the
  exception); for any other exception the detail is \<^verbatim>\<open>Upload failed: <message>\<close>.
\<close>

theorem single_upload_failure:
  assumes "map snd (new_calls calls (upload_file cfg s3 calls file folder)) = [Raises e]"
  shows "http_status (fst (upload_file cfg s3 calls file folder)) = 500
       \<and> (\<forall>r operation_name retries err code msg.
             e = ClientError r operation_name retries \<and> map_of r ''Error'' = Some err
               \<and> map_of err ''Code'' = Some code \<and> map_of err ''Message'' = Some msg
             \<longrightarrow> fst (upload_file cfg s3 calls file folder)
                   = Inl (HTTPException 500 (''S3 upload failed: '' @ code @ '' - '' @ msg)))
       \<and> (\<forall>r operation_name retries. e = ClientError r operation_name retries
             \<longrightarrow> fst (upload_file cfg s3 calls file folder)
                   = Inl (HTTPException 500
                       (''S3 upload failed: ''
                          @ dict_get (dict_get r ''Error'' []) ''Code'' ''Unknown''
                          @ '' - '' @ dict_get (dict_get r ''Error'' []) ''Message'' (str_exn e))))
       \<and> (\<forall>s. e = OtherException s
             \<longrightarrow> fst (upload_file cfg s3 calls file folder)
                   = Inl (HTTPException 500 (''Upload failed: '' @ s)))"
proof -
  have rd: "readable file"
    and out: "put_object s3 calls (single_request cfg folder file) = Raises e"
    using assms by (simp_all add: single_outcome)
  note reply = upload_file_raises [OF rd out]
  show ?thesis
  proof (cases e)
    case (ClientError r operation_name retries)
    show ?thesis
      unfolding reply ClientError upload_failed_client_error
      by (auto simp: dict_get_def)
  next
    case (OtherException s)
    show ?thesis
      unfolding reply OtherException upload_failed_other by simp
  qed
qed

theorem single_upload_failure_witness:
  "map snd (new_calls [] (upload_file default_config refusing_client [] note_txt (Some ''docs'')))
     = [Raises access_denied]
   \<and> fst (upload_file default_config refusing_client [] note_txt (Some ''docs''))
       = Inl (HTTPException 500 ''S3 upload failed: AccessDenied - Access Denied'')
   \<and> map snd (new_calls earlier_call
        (upload_file default_config second_write_fails earlier_call note_txt None))
       = [Raises (OtherException ''Connection was closed'')]
   \<and> fst (upload_file default_config second_write_fails earlier_call note_txt None)
       = Inl (HTTPException 500 ''Upload failed: Connection was closed'')"
proof -
  have h1: "map snd (new_calls []
               (upload_file default_config refusing_client [] note_txt (Some ''docs'')))
             = [Raises access_denied]"
    by (simp add: single_new_calls readable_examples refusing_client_def)
  have h2: "map snd (new_calls earlier_call
               (upload_file default_config second_write_fails earlier_call note_txt None))
             = [Raises (OtherException ''Connection was closed'')]"
    by (simp add: single_new_calls readable_examples second_write_fails_def earlier_call_def)
  show ?thesis
    using h1 h2 single_upload_failure [OF h1] single_upload_failure [OF h2]
    by (simp add: access_denied_def)
qed

section \<open>The health check\<close>

text \<open>
  Claim C7. When \<^verbatim>\<open>head_bucket\<close> returns, the health check reports the status
  \<^verbatim>\<open>healthy\<close> with the bucket name. When it raises a provider error, the reply
  still has status 200 and reports \<^verbatim>\<open>unhealthy\<close>, the bucket name and, as error
  string, the text of the exception, which is never empty.
\<close>

theorem health_check_report:
  "(head_bucket s3 (S3_BUCKET_NAME cfg) = Returns \<longrightarrow>
      health_check cfg s3 = Inr (JSONResponse 200 (JObj
        [(''status'', JStr ''healthy''),
         (''bucket'', JStr (S3_BUCKET_NAME cfg)),
         (''connection'', JStr ''success'')])))
   \<and> (\<forall>r operation_name retries.
        head_bucket s3 (S3_BUCKET_NAME cfg) = Raises (ClientError r operation_name retries) \<longrightarrow>
        http_status (health_check cfg s3) = 200
      \<and> body_of (health_check cfg s3) = JObj
          [(''status'', JStr ''unhealthy''),
           (''bucket'', JStr (S3_BUCKET_NAME cfg)),
           (''error'', JStr (str_exn (ClientError r operation_name retries)))]
      \<and> (\<exists>m. field ''error'' (body_of (health_check cfg s3)) = Some (JStr m) \<and> m \<noteq> []))"
proof (intro conjI impI allI)
  assume "head_bucket s3 (S3_BUCKET_NAME cfg) = Returns"
  then show "health_check cfg s3 = Inr (JSONResponse 200 (JObj
        [(''status'', JStr ''healthy''),
         (''bucket'', JStr (S3_BUCKET_NAME cfg)),
         (''connection'', JStr ''success'')]))"
    by (simp add: health_check_def)
next
  fix r operation_name retries
  assume e: "head_bucket s3 (S3_BUCKET_NAME cfg) = Raises (ClientError r operation_name retries)"
  then have reply: "health_check cfg s3 = Inr (JSONResponse 200 (JObj
          [(''status'', JStr ''unhealthy''),
           (''bucket'', JStr (S3_BUCKET_NAME cfg)),
           (''error'', JStr (str_exn (ClientError r operation_name retries)))]))"
    by (simp add: health_check_def)
  show "http_status (health_check cfg s3) = 200"
    unfolding reply by simp
  show "body_of (health_check cfg s3) = JObj
          [(''status'', JStr ''unhealthy''),
           (''bucket'', JStr (S3_BUCKET_NAME cfg)),
           (''error'', JStr (str_exn (ClientError r operation_name retries)))]"
    unfolding reply by simp
  have "field ''error'' (body_of (health_check cfg s3))
          = Some (JStr (str_exn (ClientError r operation_name retries)))"
    unfolding reply by simp
  moreover have "str_exn (ClientError r operation_name retries) \<noteq> []"
    by (rule str_exn_nonempty)
  ultimately show "\<exists>m. field ''error'' (body_of (health_check cfg s3)) = Some (JStr m) \<and> m \<noteq> []"
    by blast
qed

theorem health_check_report_witness:
  "head_bucket accepting_client (S3_BUCKET_NAME default_config) = Returns
   \<and> field ''status'' (body_of (health_check default_config accepting_client))
       = Some (JStr ''healthy'')
   \<and> head_bucket refusing_client (S3_BUCKET_NAME default_config) = Raises forbidden
   \<and> http_status (health_check default_config refusing_client) = 200
   \<and> field ''status'' (body_of (health_check default_config refusing_client))
       = Some (JStr ''unhealthy'')
   \<and> field ''bucket'' (body_of (health_check default_config refusing_client))
       = Some (JStr ''study2material'')
   \<and> field ''error'' (body_of (health_check default_config refusing_client))
       = Some (JStr ''An error occurred (403) when calling the HeadBucket operation: Forbidden'')"
proof -
  have h1: "head_bucket accepting_client (S3_BUCKET_NAME default_config) = Returns"
    by (simp add: accepting_client_def)
  have h2: "head_bucket refusing_client (S3_BUCKET_NAME default_config) = Raises forbidden"
    by (simp add: refusing_client_def)
  show ?thesis
    using h1 h2 health_check_report [of accepting_client default_config]
      health_check_report [of refusing_client default_config]
    by (simp add: forbidden_def default_config_def dict_get_def)
qed

section \<open>The batch upload\<close>

text \<open>
  Claim C4. In a batch every file is processed, in the order supplied, whatever happened
  to the files before it: the writes issued are exactly the requests of the files whose
  read returned, in order, and every file has its place in the line-up of files and
  attempts. The success entries of the report are the files whose write returned and the
  failure entries the files whose read or write raised, both in the order supplied. With
  three files of which the second fails in the storage, the report counts two successes
  and one failure, names the failing file, and lists the other two in their order.
\<close>

theorem batch_continues_after_failure:
  "map fst (new_calls calls (upload_multiple_files cfg s3 calls files folder))
       = map (batch_request cfg folder) (filter readable files)
   \<and> map fst (pair_up files (new_calls calls (upload_multiple_files cfg s3 calls files folder)))
       = files
   \<and> (\<exists>rs es.
         field ''results'' (body_of (fst (upload_multiple_files cfg s3 calls files folder)))
           = Some (JArr rs)
       \<and> field ''errors'' (body_of (fst (upload_multiple_files cfg s3 calls files folder)))
           = Some (JArr es)
       \<and> map (field ''filename'') rs
           = map (\<lambda>p. Some (json_str (filename (fst p))))
               (filter succeeded
                 (pair_up files
                   (new_calls calls (upload_multiple_files cfg s3 calls files folder))))
       \<and> map (field ''filename'') es
           = map (\<lambda>p. Some (json_str (filename (fst p))))
               (filter (\<lambda>p. \<not> succeeded p)
                 (pair_up files
                   (new_calls calls (upload_multiple_files cfg s3 calls files folder)))))"
proof (intro conjI exI)
  let ?r = "upload_multiple_files cfg s3 calls files folder"
  let ?ps = "pair_up files (new_calls calls ?r)"
  show "map fst (new_calls calls ?r) = map (batch_request cfg folder) (filter readable files)"
    by (rule batch_requests)
  show "map fst ?ps = files"
    by (rule batch_pair_up)
  show "field ''results'' (body_of (fst ?r)) = Some (JArr (concat (map (result_entries cfg) ?ps)))"
    by (subst batch_body) simp
  show "field ''errors'' (body_of (fst ?r)) = Some (JArr (concat (map error_entries ?ps)))"
    by (subst batch_body) simp
  show "map (field ''filename'') (concat (map (result_entries cfg) ?ps))
          = map (\<lambda>p. Some (json_str (filename (fst p)))) (filter succeeded ?ps)"
    by (rule result_filenames)
  show "map (field ''filename'') (concat (map error_entries ?ps))
          = map (\<lambda>p. Some (json_str (filename (fst p)))) (filter (\<lambda>p. \<not> succeeded p) ?ps)"
    by (rule error_filenames)
qed

theorem batch_continues_after_failure_witness:
  "map snd (new_calls []
      (upload_multiple_files default_config second_write_fails [] [a_pdf, note_txt, b_png] None))
     = [Returns, Raises (OtherException ''Connection was closed''), Returns]
   \<and> map (Key \<circ> fst) (new_calls []
      (upload_multiple_files default_config second_write_fails [] [a_pdf, note_txt, b_png] None))
     = [Some ''a.pdf'', Some ''note.txt'', Some ''b.png'']
   \<and> field ''successful'' (body_of (fst
      (upload_multiple_files default_config second_write_fails [] [a_pdf, note_txt, b_png] None)))
     = Some (JNum 2)
   \<and> field ''failed'' (body_of (fst
      (upload_multiple_files default_config second_write_fails [] [a_pdf, note_txt, b_png] None)))
     = Some (JNum 1)
   \<and> (\<exists>rs es.
        field ''results'' (body_of (fst
          (upload_multiple_files default_config second_write_fails []
             [a_pdf, note_txt, b_png] None))) = Some (JArr rs)
      \<and> field ''errors'' (body_of (fst
          (upload_multiple_files default_config second_write_fails []
             [a_pdf, note_txt, b_png] None))) = Some (JArr es)
      \<and> map (field ''filename'') rs = [Some (JStr ''a.pdf''), Some (JStr ''b.png'')]
      \<and> map (field ''filename'') es = [Some (JStr ''note.txt'')])"
proof -
  let ?r = "upload_multiple_files default_config second_write_fails [] [a_pdf, note_txt, b_png] None"
  have calls: "map snd (new_calls [] ?r)
                 = [Returns, Raises (OtherException ''Connection was closed''), Returns]"
    and keys: "map (Key \<circ> fst) (new_calls [] ?r)
                 = [Some ''a.pdf'', Some ''note.txt'', Some ''b.png'']"
    and counts: "field ''successful'' (body_of (fst ?r)) = Some (JNum 2)"
      "field ''failed'' (body_of (fst ?r)) = Some (JNum 1)"
    by (simp_all add: three_files_batch new_calls_def)
  have names: "filename a_pdf = Some ''a.pdf''" "filename note_txt = Some ''note.txt''"
    "filename b_png = Some ''b.png''"
    by (simp_all add: a_pdf_def note_txt_def b_png_def)
  have reads: "read a_pdf = Inr [37, 80, 68, 70]"
    "read note_txt = Inr [104, 101, 108, 108, 111, 32, 116, 101, 120, 116]"
    "read b_png = Inr [137, 80, 78, 71]"
    by (simp_all add: a_pdf_def note_txt_def b_png_def)
  from batch_continues_after_failure
         [of "[]" default_config second_write_fails "[a_pdf, note_txt, b_png]" None]
  obtain rs es where
    "field ''results'' (body_of (fst ?r)) = Some (JArr rs)"
    "field ''errors'' (body_of (fst ?r)) = Some (JArr es)"
    "map (field ''filename'') rs
       = map (\<lambda>p. Some (json_str (filename (fst p))))
           (filter succeeded (pair_up [a_pdf, note_txt, b_png] (new_calls [] ?r)))"
    "map (field ''filename'') es
       = map (\<lambda>p. Some (json_str (filename (fst p))))
           (filter (\<lambda>p. \<not> succeeded p) (pair_up [a_pdf, note_txt, b_png] (new_calls [] ?r)))"
    by blast
  moreover have "new_calls [] ?r = snd ?r"
    by (simp add: new_calls_def)
  ultimately have
    "field ''results'' (body_of (fst ?r)) = Some (JArr rs)
     \<and> field ''errors'' (body_of (fst ?r)) = Some (JArr es)
     \<and> map (field ''filename'') rs = [Some (JStr ''a.pdf''), Some (JStr ''b.png'')]
     \<and> map (field ''filename'') es = [Some (JStr ''note.txt'')]"
    by (simp add: three_files_batch reads names json_str_def)
  then have "\<exists>rs es.
      field ''results'' (body_of (fst ?r)) = Some (JArr rs)
     \<and> field ''errors'' (body_of (fst ?r)) = Some (JArr es)
     \<and> map (field ''filename'') rs = [Some (JStr ''a.pdf''), Some (JStr ''b.png'')]
     \<and> map (field ''filename'') es = [Some (JStr ''note.txt'')]"
    by (intro exI)
  with calls keys counts show ?thesis
    by (intro conjI)
qed

text \<open>
  Claim C6. Whatever the files and however many of them fail, all of them included, the
  batch handler returns a reply with status 200; the failures appear in the body only,
  where the failure count and the number of failure entries equal the number of files
  whose read raised plus the number of writes that raised.
\<close>

theorem batch_reply_always_200:
  "http_status (fst (upload_multiple_files cfg s3 calls files folder)) = 200
   \<and> (\<exists>body. fst (upload_multiple_files cfg s3 calls files folder) = Inr (JSONResponse 200 body))
   \<and> field ''failed'' (body_of (fst (upload_multiple_files cfg s3 calls files folder)))
       = Some (JNum (int
           (length (filter (\<lambda>f. \<not> readable f) files)
            + length (filter (\<lambda>c. snd c \<noteq> Returns)
                (new_calls calls (upload_multiple_files cfg s3 calls files folder))))))
   \<and> (\<exists>es. field ''errors'' (body_of (fst (upload_multiple_files cfg s3 calls files folder)))
              = Some (JArr es)
           \<and> length es
               = length (filter (\<lambda>f. \<not> readable f) files)
                 + length (filter (\<lambda>c. snd c \<noteq> Returns)
                     (new_calls calls (upload_multiple_files cfg s3 calls files folder))))"
proof -
  let ?r = "upload_multiple_files cfg s3 calls files folder"
  let ?ps = "pair_up files (new_calls calls ?r)"
  have n: "length (concat (map error_entries ?ps))
             = length (filter (\<lambda>f. \<not> readable f) files)
               + length (filter (\<lambda>c. snd c \<noteq> Returns) (new_calls calls ?r))"
    unfolding error_entries_count by (rule failures_split) (rule batch_length)
  have "http_status (fst ?r) = 200"
    by (subst batch_reply) simp
  moreover have "\<exists>body. fst ?r = Inr (JSONResponse 200 body)"
    by (subst batch_reply) simp
  moreover have "field ''failed'' (body_of (fst ?r))
       = Some (JNum (int (length (concat (map error_entries ?ps)))))"
    by (subst batch_body) simp
  moreover have "field ''errors'' (body_of (fst ?r)) = Some (JArr (concat (map error_entries ?ps)))"
    by (subst batch_body) simp
  ultimately show ?thesis
    unfolding n [symmetric] by simp
qed

theorem batch_reply_always_200_witness:
  "map snd (new_calls []
      (upload_multiple_files default_config refusing_client [] [a_pdf, closed_file, b_png]
         (Some ''docs/'')))
     = [Raises access_denied, Raises access_denied]
   \<and> filter (\<lambda>f. \<not> readable f) [a_pdf, closed_file, b_png] = [closed_file]
   \<and> http_status (fst
      (upload_multiple_files default_config refusing_client [] [a_pdf, closed_file, b_png]
         (Some ''docs/'')))
     = 200
   \<and> field ''failed'' (body_of (fst
      (upload_multiple_files default_config refusing_client [] [a_pdf, closed_file, b_png]
         (Some ''docs/''))))
     = Some (JNum 3)"
  using batch_reply_always_200 [of default_config refusing_client "[]"
      "[a_pdf, closed_file, b_png]" "Some ''docs/''"]
  by (simp add: unreadable_and_refused_batch new_calls_def readable_examples)

text \<open>
  Claim C10. The report of a batch has one entry for every file, in exactly one of its two
  lists: the names in the two lists together are the names of the files, each as often as
  it was supplied, so the success count and the failure count add up to the number of
  files. The message gives that number in decimal.
\<close>

theorem batch_counts:
  "\<exists>rs es.
     fst (upload_multiple_files cfg s3 calls files folder)
       = Inr (JSONResponse 200 (JObj
           [(''message'', JStr (''Processed '' @ str_nat (length files) @ '' file(s)'')),
            (''successful'', JNum (int (length rs))),
            (''failed'', JNum (int (length es))),
            (''results'', JArr rs),
            (''errors'', JArr es)]))
   \<and> length rs + length es = length files
   \<and> mset (map (field ''filename'') (rs @ es))
       = mset (map (\<lambda>f. Some (json_str (filename f))) files)
   \<and> read_nat (str_nat (length files)) = length files"
proof (intro exI conjI)
  let ?r = "upload_multiple_files cfg s3 calls files folder"
  let ?ps = "pair_up files (new_calls calls ?r)"
  let ?name = "\<lambda>p::upload \<times> attempt. Some (json_str (filename (fst p)))"
  have fs: "map fst ?ps = files"
    by (rule batch_pair_up)
  have len: "length ?ps = length files"
    using arg_cong [OF fs, of length] by simp
  show "fst ?r = Inr (JSONResponse 200 (JObj
           [(''message'', JStr (''Processed '' @ str_nat (length files) @ '' file(s)'')),
            (''successful'', JNum (int (length (concat (map (result_entries cfg) ?ps))))),
            (''failed'', JNum (int (length (concat (map error_entries ?ps))))),
            (''results'', JArr (concat (map (result_entries cfg) ?ps))),
            (''errors'', JArr (concat (map error_entries ?ps)))]))"
    by (rule batch_reply)
  show "length (concat (map (result_entries cfg) ?ps)) + length (concat (map error_entries ?ps))
          = length files"
    by (simp add: entries_total len)
  have "mset (map (field ''filename'')
           (concat (map (result_entries cfg) ?ps) @ concat (map error_entries ?ps)))
          = mset (map ?name (filter succeeded ?ps))
            + mset (map ?name (filter (\<lambda>p. \<not> succeeded p) ?ps))"
    by (simp add: result_filenames error_filenames)
  also have "\<dots> = mset (map ?name ?ps)"
    by (rule mset_map_partition)
  also have "map ?name ?ps = map (\<lambda>f. Some (json_str (filename f))) (map fst ?ps)"
    by (simp add: comp_def)
  also have "map fst ?ps = files"
    by (rule fs)
  finally show "mset (map (field ''filename'')
           (concat (map (result_entries cfg) ?ps) @ concat (map error_entries ?ps)))
          = mset (map (\<lambda>f. Some (json_str (filename f))) files)" .
  show "read_nat (str_nat (length files)) = length files"
    by (rule read_nat_str_nat)
qed

theorem batch_counts_witness:
  "\<exists>rs es.
     fst (upload_multiple_files default_config accepting_client [] [a_pdf, closed_file, b_png] None)
       = Inr (JSONResponse 200 (JObj
           [(''message'', JStr ''Processed 3 file(s)''),
            (''successful'', JNum 2),
            (''failed'', JNum 1),
            (''results'', JArr rs),
            (''errors'', JArr es)]))
   \<and> length rs + length es = 3"
proof -
  from batch_counts [of default_config accepting_client "[]" "[a_pdf, closed_file, b_png]" None]
  obtain rs es where
    r: "fst (upload_multiple_files default_config accepting_client []
              [a_pdf, closed_file, b_png] None)
       = Inr (JSONResponse 200 (JObj
           [(''message'',
             JStr (''Processed '' @ str_nat (length [a_pdf, closed_file, b_png]) @ '' file(s)'')),
            (''successful'', JNum (int (length rs))),
            (''failed'', JNum (int (length es))),
            (''results'', JArr rs),
            (''errors'', JArr es)]))"
    and n: "length rs + length es = length [a_pdf, closed_file, b_png]"
    by blast
  from r have "length rs = 2" "length es = 1"
    by (simp_all add: unreadable_middle_batch)
  with r n have
    "fst (upload_multiple_files default_config accepting_client []
              [a_pdf, closed_file, b_png] None)
       = Inr (JSONResponse 200 (JObj
           [(''message'', JStr ''Processed 3 file(s)''),
            (''successful'', JNum 2),
            (''failed'', JNum 1),
            (''results'', JArr rs),
            (''errors'', JArr es)]))
     \<and> length rs + length es = 3"
    by (simp add: str_nat_small flip: numeral_3_eq_3)
  then show ?thesis
    by (intro exI)
qed

section \<open>The two upload paths compared\<close>

text \<open>
  Claim C8. Every write of the single-file handler sets the access policy
  \<^verbatim>\<open>public-read\<close>, every write of the batch handler passes none, and for the same
  file and folder the two requests agree in every other argument. A write is issued for
  each file whose read returns.
\<close>

theorem acl_only_on_single_upload:
  "map (ACL \<circ> fst) (new_calls calls (upload_file cfg s3 calls file folder))
     = (if readable file then [Some ''public-read''] else [])
   \<and> map (ACL \<circ> fst) (new_calls calls (upload_multiple_files cfg s3 calls files folder))
       = replicate (length (filter readable files)) None
   \<and> map fst (new_calls calls (upload_file cfg s3 calls file folder))
       = map (\<lambda>c. (fst c)\<lparr>ACL := Some ''public-read''\<rparr>)
           (new_calls calls' (upload_multiple_files cfg s3' calls' [file] folder))"
proof (intro conjI)
  show "map (ACL \<circ> fst) (new_calls calls (upload_file cfg s3 calls file folder))
          = (if readable file then [Some ''public-read''] else [])"
    by (simp add: single_new_calls single_request_def)
  have "map ACL (map fst (new_calls calls (upload_multiple_files cfg s3 calls files folder)))
          = map ACL (map (batch_request cfg folder) (filter readable files))"
    by (simp only: batch_requests)
  then show "map (ACL \<circ> fst) (new_calls calls (upload_multiple_files cfg s3 calls files folder))
          = replicate (length (filter readable files)) None"
    by (simp add: batch_request_def comp_def map_replicate_const)
  have "map (\<lambda>q. q\<lparr>ACL := Some ''public-read''\<rparr>)
          (map fst (new_calls calls' (upload_multiple_files cfg s3' calls' [file] folder)))
        = map (\<lambda>q. q\<lparr>ACL := Some ''public-read''\<rparr>)
            (map (batch_request cfg folder) (filter readable [file]))"
    by (simp only: batch_requests)
  then show "map fst (new_calls calls (upload_file cfg s3 calls file folder))
       = map (\<lambda>c. (fst c)\<lparr>ACL := Some ''public-read''\<rparr>)
           (new_calls calls' (upload_multiple_files cfg s3' calls' [file] folder))"
    by (simp add: single_new_calls single_request_def batch_request_def comp_def)
qed

theorem acl_only_on_single_upload_witness:
  "map (ACL \<circ> fst) (new_calls [] (upload_file default_config accepting_client [] a_pdf None))
     = [Some ''public-read'']
   \<and> map (ACL \<circ> fst) (new_calls []
        (upload_multiple_files default_config accepting_client [] [a_pdf, note_txt, b_png] None))
       = [None, None, None]"
  using acl_only_on_single_upload [of "[]" default_config accepting_client a_pdf None
      "[a_pdf, note_txt, b_png]"]
  by (simp add: numeral_3_eq_3 readable_examples)

text \<open>
  Claim C9. The key is a function of the folder and the file name alone. Two uploads
  with the same folder and file name, both read or both not, pass the same key whatever
  the configuration, the storage client, the calls made before and the rest of the file;
  in a batch the key of each file is the key its single upload would pass, at every
  position. Building the key cannot fail: every file whose read returns reaches its
  write. Nor has it an effect: the earlier calls stay as they were.
\<close>

theorem key_builder_deterministic:
  assumes "filename file = filename file'" and "readable file = readable file'"
    and "map filename files = map filename files'"
    and "map readable files = map readable files'"
  shows "map (Key \<circ> fst) (new_calls calls (upload_file cfg s3 calls file folder))
           = map (Key \<circ> fst) (new_calls calls' (upload_file cfg' s3' calls' file' folder))
       \<and> length (new_calls calls (upload_file cfg s3 calls file folder))
           = (if readable file then 1 else 0)
       \<and> map (Key \<circ> fst) (new_calls calls (upload_multiple_files cfg s3 calls files folder))
           = map (Key \<circ> fst)
               (new_calls calls' (upload_multiple_files cfg' s3' calls' files' folder))
       \<and> map (Key \<circ> fst) (new_calls calls (upload_multiple_files cfg s3 calls files folder))
           = concat (map (\<lambda>f. map (Key \<circ> fst)
               (new_calls calls' (upload_file cfg' s3' calls' f folder))) files)
       \<and> length (new_calls calls (upload_multiple_files cfg s3 calls files folder))
           = length (filter readable files)
       \<and> snd (upload_file cfg s3 calls file folder)
           = calls @ new_calls calls (upload_file cfg s3 calls file folder)
       \<and> snd (upload_multiple_files cfg s3 calls files folder)
           = calls @ new_calls calls (upload_multiple_files cfg s3 calls files folder)"
proof (intro conjI)
  have "length files = length files'"
    using arg_cong [OF assms(3), of length] by simp
  then have names: "map (\<lambda>f. key_for folder (filename f)) (filter readable files)
                 = map (\<lambda>f. key_for folder (filename f)) (filter readable files')"
    using assms(3,4) by (induction files files' rule: list_induct2) simp_all
  show "map (Key \<circ> fst) (new_calls calls (upload_file cfg s3 calls file folder))
          = map (Key \<circ> fst) (new_calls calls' (upload_file cfg' s3' calls' file' folder))"
    by (simp only: single_key assms(1,2))
  show "length (new_calls calls (upload_file cfg s3 calls file folder))
          = (if readable file then 1 else 0)"
    by (simp add: single_new_calls)
  show "map (Key \<circ> fst) (new_calls calls (upload_multiple_files cfg s3 calls files folder))
          = map (Key \<circ> fst)
              (new_calls calls' (upload_multiple_files cfg' s3' calls' files' folder))"
    by (simp only: batch_keys names)
  have "concat (map (\<lambda>f. if readable f then [key_for folder (filename f)] else []) files)
          = map (\<lambda>f. key_for folder (filename f)) (filter readable files)"
    by (induction files) simp_all
  then show "map (Key \<circ> fst) (new_calls calls (upload_multiple_files cfg s3 calls files folder))
          = concat (map (\<lambda>f. map (Key \<circ> fst)
              (new_calls calls' (upload_file cfg' s3' calls' f folder))) files)"
    by (simp only: batch_keys single_key)
  show "length (new_calls calls (upload_multiple_files cfg s3 calls files folder))
          = length (filter readable files)"
    by (rule batch_length)
  show "snd (upload_file cfg s3 calls file folder)
          = calls @ new_calls calls (upload_file cfg s3 calls file folder)"
  proof (cases "readable file")
    case True
    then show ?thesis by (simp add: single_new_calls upload_file_request)
  next
    case False
    then obtain e where "read file = Inl e" by (auto simp: unreadable_iff)
    with False show ?thesis by (simp add: new_calls_def upload_file_unreadable)
  qed
  show "snd (upload_multiple_files cfg s3 calls files folder)
          = calls @ new_calls calls (upload_multiple_files cfg s3 calls files folder)"
    by (rule batch_calls)
qed

theorem key_builder_deterministic_witness:
  "filename a_pdf = filename (a_pdf\<lparr>read := Inr []\<rparr>)
   \<and> readable a_pdf = readable (a_pdf\<lparr>read := Inr []\<rparr>)
   \<and> map filename [a_pdf, closed_file, b_png]
       = map filename [a_pdf\<lparr>read := Inr []\<rparr>, closed_file, b_png]
   \<and> map readable [a_pdf, closed_file, b_png]
       = map readable [a_pdf\<lparr>read := Inr []\<rparr>, closed_file, b_png]
   \<and> map (Key \<circ> fst)
        (new_calls [] (upload_file default_config accepting_client [] a_pdf (Some ''docs//'')))
       = map (Key \<circ> fst)
          (new_calls earlier_call
             (upload_file (default_config\<lparr>AWS_REGION := ''us-east-1''\<rparr>) refusing_client
                earlier_call (a_pdf\<lparr>read := Inr []\<rparr>) (Some ''docs//'')))
   \<and> map (Key \<circ> fst)
        (new_calls [] (upload_multiple_files default_config accepting_client []
           [a_pdf, closed_file, b_png] (Some ''docs//'')))
       = map (Key \<circ> fst)
          (new_calls earlier_call
             (upload_multiple_files (default_config\<lparr>AWS_REGION := ''us-east-1''\<rparr>)
                refusing_client earlier_call [a_pdf\<lparr>read := Inr []\<rparr>, closed_file, b_png]
                (Some ''docs//'')))"
proof -
  have h1: "filename a_pdf = filename (a_pdf\<lparr>read := Inr []\<rparr>)"
    by simp
  have h2: "readable a_pdf = readable (a_pdf\<lparr>read := Inr []\<rparr>)"
    by (simp add: readable_def a_pdf_def)
  have h3: "map filename [a_pdf, closed_file, b_png]
              = map filename [a_pdf\<lparr>read := Inr []\<rparr>, closed_file, b_png]"
    by simp
  have h4: "map readable [a_pdf, closed_file, b_png]
              = map readable [a_pdf\<lparr>read := Inr []\<rparr>, closed_file, b_png]"
    using h2 by simp
  show ?thesis
    using h1 h2 h3 h4
      key_builder_deterministic [OF h1 h2 h3 h4, of "[]" default_config accepting_client
        "Some ''docs//''" earlier_call "default_config\<lparr>AWS_REGION := ''us-east-1''\<rparr>"
        refusing_client]
    by simp
qed

end
